theory Spec2Isabelle
  imports Complex_Main "HOL-Library.Char_ord" "HOL-Library.List_Lexorder"
    "HOL-Library.Product_Lexorder" "HOL-Library.Multiset"
begin

section \<open>Text primitives of the query parser\<close>

text \<open>
  The definitions carry the names of the Python functions they model; a leading
  underscore of a Python name is dropped (\<^verbatim>\<open>_detect_ranking\<close> is \<open>detect_ranking\<close>).

  Query texts and location names are modelled as \<^typ>\<open>string\<close>, read as ASCII text.
  The character classes below are the ASCII part of what Python's \<^verbatim>\<open>re\<close> module and
  \<^verbatim>\<open>str\<close> methods use on \<^verbatim>\<open>str\<close> values: \<^verbatim>\<open>\d\<close> (decimal digits), \<^verbatim>\<open>\w\<close> (letters, digits,
  underscore), \<^verbatim>\<open>\s\<close> and \<^verbatim>\<open>str.strip\<close> (whitespace, which for \<^verbatim>\<open>str\<close> includes the
  separators 0x1C to 0x1F), \<^verbatim>\<open>str.lower\<close> (A to Z). Characters outside ASCII are treated
  as neither digit, word character nor whitespace, and are left alone by \<open>lower\<close>.
\<close>

definition is_digit :: "char \<Rightarrow> bool" where
  "is_digit c = (c \<in> set ''0123456789'')"

definition is_word :: "char \<Rightarrow> bool" where
  "is_word c = (c \<in> set ''abcdefghijklmnopqrstuvwxyzABCDEFGHIJKLMNOPQRSTUVWXYZ0123456789_'')"

definition is_space :: "char \<Rightarrow> bool" where
  "is_space c = (c \<in> set [CHR 0x09, CHR 0x0A, CHR 0x0B, CHR 0x0C, CHR 0x0D,
                            CHR 0x1C, CHR 0x1D, CHR 0x1E, CHR 0x1F, CHR 0x20])"

definition lower_char :: "char \<Rightarrow> char" where
  "lower_char c =
     (case map_of (zip ''ABCDEFGHIJKLMNOPQRSTUVWXYZ'' ''abcdefghijklmnopqrstuvwxyz'') c of
        Some l \<Rightarrow> l
      | None \<Rightarrow> c)"

definition lower :: "string \<Rightarrow> string" where
  "lower s = map lower_char s"

definition strip :: "string \<Rightarrow> string" where
  "strip s = rev (dropWhile is_space (rev (dropWhile is_space s)))"

fun startswith :: "string \<Rightarrow> string \<Rightarrow> bool" where
  "startswith [] s = True"
| "startswith (k # ks) [] = False"
| "startswith (k # ks) (c # cs) = (k = c \<and> startswith ks cs)"

text \<open>\<^verbatim>\<open>keyword in text\<close>: substring containment.\<close>

fun contains :: "string \<Rightarrow> string \<Rightarrow> bool" where
  "contains kw [] = (kw = [])"
| "contains kw (c # cs) = (startswith kw (c # cs) \<or> contains kw cs)"

text \<open>
  \<^verbatim>\<open>re.search(rf"\b{re.escape(keyword)}\b", text)\<close>. A position is a word boundary when
  exactly one of the characters before and after it is a word character (a missing
  character counts as a non-word character). The search carries whether the character
  before the current position is a word character.
\<close>

definition next_is_word :: "string \<Rightarrow> bool" where
  "next_is_word s = (case s of [] \<Rightarrow> False | c # _ \<Rightarrow> is_word c)"

definition word_match_here :: "bool \<Rightarrow> string \<Rightarrow> string \<Rightarrow> bool" where
  "word_match_here prev_word kw s =
     (startswith kw s \<and> prev_word \<noteq> next_is_word s \<and>
      (if kw = [] then prev_word else is_word (last kw)) \<noteq> next_is_word (drop (length kw) s))"

fun search_word_from :: "bool \<Rightarrow> string \<Rightarrow> string \<Rightarrow> bool" where
  "search_word_from prev_word kw [] = word_match_here prev_word kw []"
| "search_word_from prev_word kw (c # cs) =
     (word_match_here prev_word kw (c # cs) \<or> search_word_from (is_word c) kw cs)"

definition search_word :: "string \<Rightarrow> string \<Rightarrow> bool" where
  "search_word kw s = search_word_from False kw s"

text \<open>
  \<^verbatim>\<open>int(text)\<close> on a run of decimal digits. CPython refuses to convert a decimal string
  of more than 4300 digits (\<^verbatim>\<open>sys.int_info.default_max_str_digits\<close>) with a
  \<^verbatim>\<open>ValueError\<close>, which is the error the parser's \<^verbatim>\<open>except ValueError\<close> clauses catch;
  \<open>None\<close> stands for that error.
\<close>

definition digit_value :: "char \<Rightarrow> int" where
  "digit_value c =
     (case map_of (zip ''0123456789'' [0, 1, 2, 3, 4, 5, 6, 7, 8, 9]) c of
        Some d \<Rightarrow> d
      | None \<Rightarrow> 0)"

definition digits_value :: "string \<Rightarrow> int" where
  "digits_value ds = foldl (\<lambda>acc c. 10 * acc + digit_value c) 0 ds"

definition max_str_digits :: nat where
  "max_str_digits = 4300"

definition py_int :: "string \<Rightarrow> int option" where
  "py_int ds =
     (if ds \<noteq> [] \<and> list_all is_digit ds \<and> length ds \<le> max_str_digits
      then Some (digits_value ds) else None)"

section \<open>Keyword tables\<close>

definition METRIC_KEYWORDS :: "(string \<times> string list) list" where
  "METRIC_KEYWORDS =
     [(''price'', [''price'', ''prices'', ''rate'', ''rates'', ''valuation'', ''cost'', ''pricing'']),
      (''demand'', [''demand'', ''sold'', ''sales'', ''absorption'', ''bookings'', ''units sold'']),
      (''supply'', [''supply'', ''supplied'', ''inventory'', ''stock'', ''pipeline'',
                    ''units available'', ''carpet area'']),
      (''sales'', [''total_sales'', ''total sales'', ''revenue'', ''turnover''])]"

definition PROPERTY_KEYWORDS :: "(string \<times> string list) list" where
  "PROPERTY_KEYWORDS =
     [(''flat'', [''flat'', ''flats'', ''apartment'', ''apartments'', ''residential'']),
      (''office'', [''office'', ''offices'']),
      (''shop'', [''shop'', ''shops'', ''retail'', ''stores''])]"

definition SPECIAL_PROPERTY_KEYWORDS :: "(string \<times> string list) list" where
  "SPECIAL_PROPERTY_KEYWORDS =
     [(''carpet_area'', [''carpet area'', ''carpet sq'', ''sqft supplied''])]"

definition COMPARISON_KEYWORDS :: "string list" where
  "COMPARISON_KEYWORDS =
     [''compare'', '' vs '', '' vs. '', ''vs'', ''v/s'', ''versus'', ''between'', ''against'',
      ''compared to'', ''better than'', ''performed better'']"

definition GENERAL_INSIGHT_KEYWORDS :: "string list" where
  "GENERAL_INSIGHT_KEYWORDS =
     [''overview'', ''insight'', ''analysis'', ''summary'', ''summarize'', ''explain'', ''trend'',
      ''outlook'']"

definition COORDINATE_KEYWORDS :: "string list" where
  "COORDINATE_KEYWORDS =
     [''coordinate'', ''coordinates'', ''lat'', ''lng'', ''longitude'', ''latitude'',
      ''location pin'']"

definition NEAR_KEYWORDS :: "string list" where
  "NEAR_KEYWORDS = [''near'', ''nearby'', ''close to'', ''around'']"

definition RANKING_DESC_KEYWORDS :: "string list" where
  "RANKING_DESC_KEYWORDS = [''highest'', ''top'', ''most'', ''fastest'', ''best'']"

definition RANKING_ASC_KEYWORDS :: "string list" where
  "RANKING_ASC_KEYWORDS = [''lowest'', ''least'', ''slowest'', ''bottom'', ''worst'', ''minimum'']"

definition STAT_KEYWORDS :: "(string \<times> string list) list" where
  "STAT_KEYWORDS =
     [(''average'', [''average'', ''avg'', ''mean'']),
      (''max'', [''highest'', ''max'', ''peak'']),
      (''min'', [''lowest'', ''min'', ''minimum'']),
      (''growth_rate'', [''growth rate'', ''growth'', ''increase'', ''rise'', ''drop'', ''decline''])]"

definition ALL_LOCATIONS_KEYWORDS :: "string list" where
  "ALL_LOCATIONS_KEYWORDS =
     [''all locations'', ''across all'', ''overall'', ''entire city'', ''whole city'',
      ''across pune'', ''citywide'', ''across the city'']"

section \<open>The regular expressions of the parser\<close>

text \<open>
  Each pattern is modelled by a matcher at one position and a leftmost search. Every
  greedy repetition in these patterns (\<^verbatim>\<open>\s*\<close>, \<^verbatim>\<open>\s+\<close>, \<^verbatim>\<open>\d+\<close>) is followed by something
  that cannot start with a character of the repeated class, so giving characters back
  never produces a match and the longest run is the only candidate.
\<close>

text \<open>\<^verbatim>\<open>20\d{2}\<close> at the start of the text: the matched year and the rest.\<close>

fun year_here :: "string \<Rightarrow> (string \<times> string) option" where
  "year_here (a # b # c # d # rest) =
     (if a = CHR ''2'' \<and> b = CHR ''0'' \<and> is_digit c \<and> is_digit d
      then Some ([a, b, c, d], rest) else None)"
| "year_here s = None"

definition YEAR_CONNECTORS :: "string list" where
  "YEAR_CONNECTORS = [''to'', ''-'', ''through'', ''until'', ''till'', ''and'']"

text \<open>The alternation \<^verbatim>\<open>(?:to|-|through|until|till|and)\<close>, tried in order, each followed by
  \<^verbatim>\<open>\s*(20\d{2})\<close>.\<close>

fun try_connectors :: "string list \<Rightarrow> string \<Rightarrow> string option" where
  "try_connectors [] r = None"
| "try_connectors (k # ks) r =
     (if startswith k r
      then (case year_here (dropWhile is_space (drop (length k) r)) of
              Some (y2, rest) \<Rightarrow> Some y2
            | None \<Rightarrow> try_connectors ks r)
      else try_connectors ks r)"

definition year_range_here :: "string \<Rightarrow> (string \<times> string) option" where
  "year_range_here s =
     (case year_here s of
        None \<Rightarrow> None
      | Some (y1, r1) \<Rightarrow>
          (case try_connectors YEAR_CONNECTORS (dropWhile is_space r1) of
             None \<Rightarrow> None
           | Some y2 \<Rightarrow> Some (y1, y2)))"

text \<open>\<^verbatim>\<open>YEAR_RANGE_REGEX.search\<close>: the groups of the leftmost match.\<close>

fun YEAR_RANGE_REGEX_search :: "string \<Rightarrow> (string \<times> string) option" where
  "YEAR_RANGE_REGEX_search [] = None"
| "YEAR_RANGE_REGEX_search (c # cs) =
     (case year_range_here (c # cs) of
        Some g \<Rightarrow> Some g
      | None \<Rightarrow> YEAR_RANGE_REGEX_search cs)"

text \<open>\<^verbatim>\<open>YEAR_REGEX.findall\<close>: the non-overlapping matches, left to right.\<close>

fun YEAR_REGEX_findall :: "string \<Rightarrow> string list" where
  "YEAR_REGEX_findall (a # b # c # d # rest) =
     (if a = CHR ''2'' \<and> b = CHR ''0'' \<and> is_digit c \<and> is_digit d
      then [a, b, c, d] # YEAR_REGEX_findall rest
      else YEAR_REGEX_findall (b # c # d # rest))"
| "YEAR_REGEX_findall s = []"

text \<open>\<^verbatim>\<open>top\s+(\d+)\<close>: the digits of group 1.\<close>

definition top_n_here :: "string \<Rightarrow> string option" where
  "top_n_here s =
     (if startswith ''top'' s
      then (let r = drop 3 s; ds = takeWhile is_digit (dropWhile is_space r)
            in if takeWhile is_space r \<noteq> [] \<and> ds \<noteq> [] then Some ds else None)
      else None)"

fun TOP_N_REGEX_search :: "string \<Rightarrow> string option" where
  "TOP_N_REGEX_search [] = None"
| "TOP_N_REGEX_search (c # cs) =
     (case top_n_here (c # cs) of
        Some ds \<Rightarrow> Some ds
      | None \<Rightarrow> TOP_N_REGEX_search cs)"

text \<open>\<^verbatim>\<open>(?:last|past)\s+(\d+)\s+years?\<close>: the digits of group 1.\<close>

definition last_n_here :: "string \<Rightarrow> string option" where
  "last_n_here s =
     (if startswith ''last'' s \<or> startswith ''past'' s
      then (let r = drop 4 s; r1 = dropWhile is_space r; ds = takeWhile is_digit r1;
                r2 = dropWhile is_digit r1
            in if takeWhile is_space r \<noteq> [] \<and> ds \<noteq> [] \<and> takeWhile is_space r2 \<noteq> [] \<and>
                  startswith ''year'' (dropWhile is_space r2)
               then Some ds else None)
      else None)"

fun LAST_N_YEARS_REGEX_search :: "string \<Rightarrow> string option" where
  "LAST_N_YEARS_REGEX_search [] = None"
| "LAST_N_YEARS_REGEX_search (c # cs) =
     (case last_n_here (c # cs) of
        Some ds \<Rightarrow> Some ds
      | None \<Rightarrow> LAST_N_YEARS_REGEX_search cs)"

section \<open>The query parser\<close>

record ParsedQuery =
  raw_query :: string
  locations :: "string list"
  metric :: string
  property_types :: "string list"
  comparison :: bool
  ranking :: bool
  ranking_order :: string
  ranking_limit :: "int option"
  coordinate :: bool
  near :: bool
  year :: "int option"
  year_range :: "(int \<times> int) option"
  last_n_years :: "int option"
  stats :: "string list"
  extrema :: bool
  general_insight :: bool
  all_locations :: bool

text \<open>The loop of \<^verbatim>\<open>_match_locations\<close>: \<open>found\<close> is the list built so far; the loop
  breaks as soon as it holds two names.\<close>

fun match_locations_loop :: "string \<Rightarrow> string list \<Rightarrow> string list \<Rightarrow> string list" where
  "match_locations_loop lowered_query [] found = found"
| "match_locations_loop lowered_query (location # rest) found =
     (let found' = (if search_word (lower location) lowered_query
                    then found @ [location] else found)
      in if length found' = 2 then found'
         else match_locations_loop lowered_query rest found')"

definition match_locations :: "string \<Rightarrow> string list \<Rightarrow> string list" where
  "match_locations query locs = match_locations_loop (lower query) locs []"

definition detect_boolean :: "string \<Rightarrow> string list \<Rightarrow> bool \<Rightarrow> bool" where
  "detect_boolean lowered_query keywords word_boundary =
     (if word_boundary then list_ex (\<lambda>keyword. search_word keyword lowered_query) keywords
      else list_ex (\<lambda>keyword. contains keyword lowered_query) keywords)"

fun detect_metric_loop :: "(string \<times> string list) list \<Rightarrow> string \<Rightarrow> string" where
  "detect_metric_loop [] lowered_query = ''general''"
| "detect_metric_loop ((m, keywords) # rest) lowered_query =
     (if list_ex (\<lambda>keyword. contains keyword lowered_query) keywords then m
      else detect_metric_loop rest lowered_query)"

definition detect_metric :: "string \<Rightarrow> string" where
  "detect_metric lowered_query = detect_metric_loop METRIC_KEYWORDS lowered_query"

text \<open>The order-preserving removal of duplicates at the end of
  \<^verbatim>\<open>_detect_property_types\<close>: the first occurrence of each tag is kept.\<close>

fun unique_types_loop :: "string list \<Rightarrow> string list \<Rightarrow> string list \<Rightarrow> string list" where
  "unique_types_loop [] seen unique_types = unique_types"
| "unique_types_loop (t # ts) seen unique_types =
     (if t \<notin> set seen then unique_types_loop ts (t # seen) (unique_types @ [t])
      else unique_types_loop ts seen unique_types)"

definition detect_property_types :: "string \<Rightarrow> string list" where
  "detect_property_types lowered_query =
     (let detected =
            map fst (filter (\<lambda>(t, keywords).
                       list_ex (\<lambda>keyword. search_word keyword lowered_query) keywords)
                     PROPERTY_KEYWORDS)
            @ map fst (filter (\<lambda>(t, keywords).
                         list_ex (\<lambda>keyword. contains keyword lowered_query) keywords)
                       SPECIAL_PROPERTY_KEYWORDS)
      in unique_types_loop detected [] [])"

definition extract_years :: "string \<Rightarrow> int option \<times> (int \<times> int) option" where
  "extract_years lowered_query =
     (case YEAR_RANGE_REGEX_search lowered_query of
        Some (g1, g2) \<Rightarrow>
          (let bounds = sort [digits_value g1, digits_value g2]
           in (None, Some (bounds ! 0, bounds ! 1)))
      | None \<Rightarrow>
          (let years = map digits_value (YEAR_REGEX_findall lowered_query);
               unique_years = sort (remdups years)
           in if length unique_years = 1 then (Some (unique_years ! 0), None)
              else if length unique_years \<ge> 2
                   then (None, Some (unique_years ! 0, last unique_years))
              else (None, None)))"

definition extract_last_n_years :: "string \<Rightarrow> int option" where
  "extract_last_n_years lowered_query =
     (case LAST_N_YEARS_REGEX_search lowered_query of
        None \<Rightarrow> None
      | Some ds \<Rightarrow>
          (case py_int ds of
             None \<Rightarrow> None
           | Some v \<Rightarrow> if v > 0 then Some v else None))"

definition detect_ranking :: "string \<Rightarrow> bool \<times> string \<times> int option" where
  "detect_ranking lowered_query =
     (let ranking0 = detect_boolean lowered_query
                       (RANKING_DESC_KEYWORDS @ RANKING_ASC_KEYWORDS) True;
          order0 = (if detect_boolean lowered_query RANKING_ASC_KEYWORDS True
                    then ''asc'' else ''desc'')
      in case TOP_N_REGEX_search lowered_query of
           None \<Rightarrow> (ranking0, order0, None)
         | Some ds \<Rightarrow>
             (case py_int ds of
                Some n \<Rightarrow> (True, ''desc'', Some n)
              | None \<Rightarrow> (ranking0, order0, None)))"

definition detect_stats :: "string \<Rightarrow> string list" where
  "detect_stats lowered_query =
     map fst (filter (\<lambda>(stat, keywords).
                list_ex (\<lambda>keyword. contains keyword lowered_query) keywords)
              STAT_KEYWORDS)"

text \<open>\<^verbatim>\<open>parse_query(query, locations)\<close>. The second argument \<open>None\<close> selects the
  module's default list, which is read from the dataset when the module is loaded and
  is a parameter here.\<close>

definition parse_query :: "string list \<Rightarrow> string \<Rightarrow> string list option \<Rightarrow> ParsedQuery" where
  "parse_query DEFAULT_LOCATIONS query locs =
     (let trimmed_query = strip query;
          lowered_query = lower trimmed_query;
          candidate_locations = (case locs of Some l \<Rightarrow> l | None \<Rightarrow> DEFAULT_LOCATIONS);
          parsed_locations = match_locations trimmed_query candidate_locations;
          metric' = detect_metric lowered_query;
          property_types' = detect_property_types lowered_query;
          (year', year_range') = extract_years lowered_query;
          last_n_years' = extract_last_n_years lowered_query;
          (ranking_flag, ranking_order', ranking_limit') = detect_ranking lowered_query;
          stats' = detect_stats lowered_query;
          coordinate' = detect_boolean lowered_query COORDINATE_KEYWORDS True;
          near' = detect_boolean lowered_query NEAR_KEYWORDS True;
          all_locations' = detect_boolean lowered_query ALL_LOCATIONS_KEYWORDS False;
          explicit_comparison = list_ex (\<lambda>keyword. contains keyword lowered_query)
                                  COMPARISON_KEYWORDS;
          comparison' = (explicit_comparison \<or> length parsed_locations \<ge> 2);
          ranking' = (ranking_flag \<and> parsed_locations = []);
          extrema' = (ranking_flag \<and> parsed_locations \<noteq> []);
          general_insight' = (metric' = ''general'' \<or>
                              list_ex (\<lambda>keyword. contains keyword lowered_query)
                                GENERAL_INSIGHT_KEYWORDS)
      in \<lparr> raw_query = trimmed_query,
           locations = parsed_locations,
           metric = metric',
           property_types = property_types',
           comparison = comparison',
           ranking = ranking',
           ranking_order = ranking_order',
           ranking_limit = ranking_limit',
           coordinate = coordinate',
           near = near',
           year = year',
           year_range = year_range',
           last_n_years = last_n_years',
           stats = stats',
           extrema = extrema',
           general_insight = general_insight',
           all_locations = all_locations' \<rparr>)"

section \<open>Routing of a parsed query\<close>



section \<open>The dataset\<close>

text \<open>
  A record of the dataset has a location name, a year, coordinates and numeric metric
  columns. Numeric cells are floating-point numbers, modelled by the real number they
  denote; \<open>None\<close> is a missing cell (NaN). Every record has a location name and a year
  (the dataset is keyed by them); the metric columns a frame carries are listed in
  \<open>df_columns\<close>, and a metric cell of a record is looked up by column name.
\<close>

record row =
  final_location :: string
  row_year :: int
  loc_lat :: "real option"
  loc_lng :: "real option"
  cells :: "(string \<times> real option) list"

record frame =
  df_columns :: "string list"
  df_rows :: "row list"

definition cell :: "string \<Rightarrow> row \<Rightarrow> real option" where
  "cell column r = (case map_of (cells r) column of Some v \<Rightarrow> v | None \<Rightarrow> None)"

definition year_key :: "row \<Rightarrow> real option" where
  "year_key r = Some (of_int (row_year r))"

subsection \<open>Sorting by one column\<close>

text \<open>
  \<^verbatim>\<open>DataFrame.sort_values(column, ascending=...)\<close> is called with the library's default
  algorithm (\<^verbatim>\<open>kind='quicksort'\<close>), which the library documents as not stable. The
  library computes a permutation of the row positions from the key column alone and
  takes the rows in that order. That permutation is a parameter \<open>argsort\<close> of every
  function that sorts by one column; \<open>argsort_ok\<close> is what the library promises of it:
  the result lists every position once, and the keys in that order are sorted, missing
  keys last.
\<close>

type_synonym argsort = "bool \<Rightarrow> real option list \<Rightarrow> nat list"

definition key_le :: "bool \<Rightarrow> real option \<Rightarrow> real option \<Rightarrow> bool" where
  "key_le ascending a b =
     (case b of
        None \<Rightarrow> True
      | Some y \<Rightarrow> (case a of None \<Rightarrow> False
                  | Some x \<Rightarrow> if ascending then x \<le> y else y \<le> x))"

definition argsort_ok :: "argsort \<Rightarrow> bool" where
  "argsort_ok argsort =
     (\<forall>ascending keys.
        mset (argsort ascending keys) = mset [0..<length keys] \<and>
        sorted_wrt (key_le ascending) (map ((!) keys) (argsort ascending keys)))"

definition sort_values :: "argsort \<Rightarrow> ('a \<Rightarrow> real option) \<Rightarrow> bool \<Rightarrow> 'a list \<Rightarrow> 'a list" where
  "sort_values argsort by ascending rs = map ((!) rs) (argsort ascending (map by rs))"

text \<open>Two permutations that keep the promise. \<open>stable_argsort\<close> leaves rows with equal
  keys in their original order; \<open>reversing_argsort\<close> puts them in the opposite order.\<close>

definition sort_rank :: "bool \<Rightarrow> real option \<Rightarrow> nat \<times> real" where
  "sort_rank ascending k =
     (case k of None \<Rightarrow> (1, 0) | Some x \<Rightarrow> (0, if ascending then x else - x))"

definition stable_argsort :: argsort where
  "stable_argsort ascending keys =
     sort_key (\<lambda>i. sort_rank ascending (keys ! i)) [0..<length keys]"


text \<open>\<^verbatim>\<open>DataFrame.head(n)\<close>: the first \<open>n\<close> rows, or all but the last \<open>-n\<close> for a negative
  \<open>n\<close>.\<close>

definition head :: "int \<Rightarrow> 'a list \<Rightarrow> 'a list" where
  "head n rs = (if n \<ge> 0 then take (nat n) rs else take (length rs - nat (- n)) rs)"

text \<open>The slice \<^verbatim>\<open>xs[-n:]\<close>.\<close>

definition last_slice :: "int \<Rightarrow> 'a list \<Rightarrow> 'a list" where
  "last_slice n xs = (if n > 0 then drop (length xs - nat n) xs else drop (nat (- n)) xs)"

subsection \<open>Filtering (data_filter.py)\<close>

definition normalize_series :: "string \<Rightarrow> string" where
  "normalize_series s = lower (strip s)"

definition location_mask :: "string option \<Rightarrow> row \<Rightarrow> bool" where
  "location_mask location r =
     (case location of
        None \<Rightarrow> True
      | Some l \<Rightarrow> if l = [] then True else normalize_series (final_location r) = lower (strip l))"

definition filter_dataset ::
  "argsort \<Rightarrow> frame \<Rightarrow> string option \<Rightarrow> int option \<Rightarrow> (int \<times> int) option \<Rightarrow> int option \<Rightarrow> frame"
where
  "filter_dataset argsort df location yr yr_range last_n =
     (let filtered0 = filter (location_mask location) (df_rows df);
          filtered1 = (case yr_range of
                         None \<Rightarrow> filtered0
                       | Some (a, b) \<Rightarrow>
                           (let start_year = min a b; end_year = max a b
                            in filter (\<lambda>r. start_year \<le> row_year r \<and> row_year r \<le> end_year)
                                 filtered0));
          filtered2 = (case yr of
                         None \<Rightarrow> filtered1
                       | Some y \<Rightarrow> filter (\<lambda>r. row_year r = y) filtered1);
          filtered3 = sort_values argsort year_key True filtered2;
          filtered4 = (case last_n of
                         None \<Rightarrow> filtered3
                       | Some n \<Rightarrow>
                           if n \<noteq> 0 \<and> filtered3 \<noteq> []
                           then (let available_years =
                                       last_slice n (sort (remdups (map row_year filtered3)))
                                 in filter (\<lambda>r. row_year r \<in> set available_years) filtered3)
                           else filtered3)
      in df\<lparr>df_rows := filtered4\<rparr>)"


text \<open>
  \<^verbatim>\<open>latest_records_per_location\<close>. The frame is sorted by location name, then year (a
  sort by several columns, which the library does with a stable lexicographic sort);
  the rows are grouped by location name, the groups in ascending order of the name;
  \<^verbatim>\<open>idxmax\<close> picks from each group the first row holding the group's largest year.
\<close>

fun idxmax_year :: "row \<Rightarrow> row list \<Rightarrow> row" where
  "idxmax_year best [] = best"
| "idxmax_year best (r # rs) = idxmax_year (if row_year r > row_year best then r else best) rs"

definition group_latest :: "row list \<Rightarrow> string \<Rightarrow> row list" where
  "group_latest sorted_rows name =
     (case filter (\<lambda>r. final_location r = name) sorted_rows of
        [] \<Rightarrow> []
      | r # rs \<Rightarrow> [idxmax_year r rs])"

definition latest_records_per_location :: "frame \<Rightarrow> frame" where
  "latest_records_per_location df =
     (if df_rows df = [] then df
      else (let sorted_rows = sort_key (\<lambda>r. (final_location r, row_year r)) (df_rows df);
                names = sort (remdups (map final_location sorted_rows))
            in df\<lparr>df_rows := concat (map (group_latest sorted_rows) names)\<rparr>))"

definition ranking_frame :: "frame \<Rightarrow> int option \<Rightarrow> frame" where
  "ranking_frame df yr =
     (case yr of
        Some y \<Rightarrow> df\<lparr>df_rows := filter (\<lambda>r. row_year r = y) (df_rows df)\<rparr>
      | None \<Rightarrow> latest_records_per_location df)"

section \<open>Numbers as text\<close>

text \<open>\<^verbatim>\<open>str(n)\<close> for an integer, and \<^verbatim>\<open>format(x, '.df')\<close> and \<^verbatim>\<open>round(x, d)\<close> for a
  float, on the real number the float denotes (both round to the nearest value, ties to
  the even neighbour).\<close>

definition digit_char :: "nat \<Rightarrow> char" where
  "digit_char n = ''0123456789'' ! (n mod 10)"

function str_nat :: "nat \<Rightarrow> string" where
  "str_nat n = (if n < 10 then [digit_char n] else str_nat (n div 10) @ [digit_char n])"
  by pat_completeness auto
termination
  by (relation "measure id") auto

declare str_nat.simps [simp del]

definition str_int :: "int \<Rightarrow> string" where
  "str_int i = (if i < 0 then ''-'' @ str_nat (nat (- i)) else str_nat (nat i))"

definition round_half_even :: "real \<Rightarrow> int" where
  "round_half_even x =
     (let f = \<lfloor>x\<rfloor>; d = x - of_int f
      in if d < 1 / 2 then f else if d > 1 / 2 then f + 1 else if even f then f else f + 1)"

definition py_round :: "nat \<Rightarrow> real \<Rightarrow> real" where
  "py_round ndigits x = of_int (round_half_even (x * 10 ^ ndigits)) / 10 ^ ndigits"

definition zero_pad :: "nat \<Rightarrow> string \<Rightarrow> string" where
  "zero_pad width s = replicate (width - length s) (CHR ''0'') @ s"

definition format_fixed :: "nat \<Rightarrow> real \<Rightarrow> string" where
  "format_fixed d x =
     (let n = nat (round_half_even (\<bar>x\<bar> * 10 ^ d))
      in (if x < 0 then ''-'' else []) @ str_nat (n div 10 ^ d) @ ''.''
         @ zero_pad d (str_nat (n mod 10 ^ d)))"

fun join :: "string \<Rightarrow> string list \<Rightarrow> string" where
  "join sep [] = []"
| "join sep [x] = x"
| "join sep (x # y # ys) = x @ sep @ join sep (y # ys)"

section \<open>Value column, ranking limit (views.py)\<close>

definition BASE_METRIC_COLUMNS :: "(string \<times> string) list" where
  "BASE_METRIC_COLUMNS =
     [(''price'', ''flat - weighted average rate''),
      (''demand'', ''total sold - igr''),
      (''supply'', ''total units''),
      (''sales'', ''total_sales - igr''),
      (''general'', ''total_sales - igr'')]"

definition PROPERTY_METRIC_COLUMNS :: "(string \<times> (string \<times> string) list) list" where
  "PROPERTY_METRIC_COLUMNS =
     [(''price'', [(''flat'', ''flat - weighted average rate''),
                   (''office'', ''office - weighted average rate''),
                   (''shop'', ''shop - weighted average rate'')]),
      (''demand'', [(''flat'', ''flat_sold - igr''),
                    (''office'', ''office_sold - igr''),
                    (''shop'', ''shop_sold - igr'')]),
      (''supply'', [(''flat'', ''flat total''),
                    (''office'', ''office total''),
                    (''shop'', ''shop total''),
                    (''carpet_area'', ''total carpet area supplied (sqft)'')]),
      (''sales'', [(''flat'', ''flat_sold - igr''),
                   (''office'', ''office_sold - igr''),
                   (''shop'', ''shop_sold - igr'')])]"

definition RANKING_KEYWORDS_LIMIT :: "string list" where
  "RANKING_KEYWORDS_LIMIT = [''which'', ''highest'', ''lowest'', ''most'', ''least'']"

definition DEFAULT_RANKING_LIMIT :: int where
  "DEFAULT_RANKING_LIMIT = 5"

definition NEARBY_LIMIT :: int where
  "NEARBY_LIMIT = 3"

definition metric_column_for_property :: "string \<Rightarrow> string option \<Rightarrow> string option" where
  "metric_column_for_property m property_type =
     (case property_type of
        None \<Rightarrow> None
      | Some t \<Rightarrow>
          if t = [] then None
          else (let metric_map = (case map_of PROPERTY_METRIC_COLUMNS m of
                                    Some mm \<Rightarrow> mm | None \<Rightarrow> [])
                in map_of metric_map t))"

definition resolve_value_column :: "ParsedQuery \<Rightarrow> string" where
  "resolve_value_column parsed =
     (let base = (case map_of BASE_METRIC_COLUMNS (metric parsed) of
                    Some c \<Rightarrow> c | None \<Rightarrow> ''total_sales - igr'')
      in case property_types parsed of
           [] \<Rightarrow> base
         | t # ts \<Rightarrow>
             (case metric_column_for_property (metric parsed) (Some t) of
                Some first_column \<Rightarrow> if first_column \<noteq> [] then first_column else base
              | None \<Rightarrow> base))"

text \<open>\<^verbatim>\<open>if parsed.ranking_limit:\<close> tests the truth value of the limit: a limit of \<open>0\<close>
  fails the test exactly as a missing limit does.\<close>

definition resolve_ranking_limit :: "ParsedQuery \<Rightarrow> int" where
  "resolve_ranking_limit parsed =
     (let lowered = lower (raw_query parsed);
          fallback = (if list_ex (\<lambda>keyword. contains keyword lowered) RANKING_KEYWORDS_LIMIT
                      then 1 else DEFAULT_RANKING_LIMIT)
      in case ranking_limit parsed of
           None \<Rightarrow> fallback
         | Some n \<Rightarrow> if n \<noteq> 0 then n else fallback)"

section \<open>Statistics (views.py)\<close>

datatype exception = ValueError | KeyError | IndexError

record stats_result =
  st_average :: "real option"
  st_max :: "(real \<times> int) option"
  st_min :: "(real \<times> int) option"
  st_growth_rate :: "(real \<times> string) option"

definition empty_stats :: stats_result where
  "empty_stats = \<lparr>st_average = None, st_max = None, st_min = None, st_growth_rate = None\<rparr>"





section \<open>Distances and nearby locations (views.py)\<close>

definition radians :: "real \<Rightarrow> real" where
  "radians d = d * pi / 180"

definition atan2 :: "real \<Rightarrow> real \<Rightarrow> real" where
  "atan2 y x =
     (if x > 0 then arctan (y / x)
      else if x < 0 then (if y \<ge> 0 then arctan (y / x) + pi else arctan (y / x) - pi)
      else if y > 0 then pi / 2 else if y < 0 then - (pi / 2) else 0)"

text \<open>The haversine formula of \<^verbatim>\<open>_distance_km\<close> on two pairs of degrees.\<close>

definition haversine_km :: "real \<Rightarrow> real \<Rightarrow> real \<Rightarrow> real \<Rightarrow> real" where
  "haversine_km la1 lo1 la2 lo2 =
     (let R = 6371;
          lat1 = radians la1; lon1 = radians lo1;
          lat2 = radians la2; lon2 = radians lo2;
          dlat = lat2 - lat1;
          dlon = lon2 - lon1;
          a = (sin (dlat / 2)) ^ 2 + cos lat1 * cos lat2 * (sin (dlon / 2)) ^ 2;
          c = 2 * atan2 (sqrt a) (sqrt (1 - a))
      in R * c)"

text \<open>A missing coordinate (NaN) makes the distance NaN.\<close>

definition coords_distance ::
  "real option \<Rightarrow> real option \<Rightarrow> real option \<Rightarrow> real option \<Rightarrow> real option" where
  "coords_distance la1 lo1 la2 lo2 =
     (case (la1, lo1, la2, lo2) of
        (Some a1, Some o1, Some a2, Some o2) \<Rightarrow> Some (haversine_km a1 o1 a2 o2)
      | _ \<Rightarrow> None)"

definition distance_km :: "row \<Rightarrow> row \<Rightarrow> real option" where
  "distance_km first_row second_row =
     coords_distance (loc_lat first_row) (loc_lng first_row)
       (loc_lat second_row) (loc_lng second_row)"

record near_record =
  nr_location :: string
  nr_lat :: "real option"
  nr_lng :: "real option"
  nr_distance_km :: "real option"

definition near_record_of :: "row \<times> real option \<Rightarrow> near_record" where
  "near_record_of rd =
     \<lparr>nr_location = final_location (fst rd), nr_lat = loc_lat (fst rd),
      nr_lng = loc_lng (fst rd), nr_distance_km = snd rd\<rparr>"

definition nearby_localities :: "argsort \<Rightarrow> frame \<Rightarrow> string \<Rightarrow> near_record list" where
  "nearby_localities argsort df location =
     (let latest = df_rows (latest_records_per_location df);
          base_row = filter (\<lambda>r. normalize_series (final_location r) = lower location) latest
      in case base_row of
           [] \<Rightarrow> []
         | base # base_rest \<Rightarrow>
             (let others = filter (\<lambda>r. normalize_series (final_location r) \<noteq> lower location) latest
              in if others = [] then []
                 else (let with_distance =
                             map (\<lambda>r. (r, map_option (py_round 2) (distance_km base r))) others;
                           nearest = head NEARBY_LIMIT (sort_values argsort snd True with_distance)
                       in map near_record_of nearest)))"

section \<open>Chart payloads (chart_builder.py)\<close>

text \<open>
  The values handed to the chart builder are Python scalars: \<^verbatim>\<open>None\<close>, an integer or a
  float, and a float is a finite number, an infinity or NaN. \<^verbatim>\<open>pd.notna\<close> is false on
  \<^verbatim>\<open>None\<close> and NaN only. Integers are taken to lie in the range of a float, as the values
  of a numeric column do.
\<close>

datatype pyfloat = Finite real | PosInf | NegInf | NaN

datatype scalar = PyNone | PyInt int | PyFloat pyfloat

definition notna :: "scalar \<Rightarrow> bool" where
  "notna v = (v \<noteq> PyNone \<and> v \<noteq> PyFloat NaN)"

text \<open>\<^verbatim>\<open>float(value)\<close>; it is never applied to \<^verbatim>\<open>None\<close>.\<close>

fun to_float :: "scalar \<Rightarrow> pyfloat" where
  "to_float (PyInt i) = Finite (of_int i)"
| "to_float (PyFloat f) = f"
| "to_float PyNone = NaN"

fun sanitize_loop :: "scalar list \<Rightarrow> pyfloat option list \<Rightarrow> pyfloat option list" where
  "sanitize_loop [] sanitized = sanitized"
| "sanitize_loop (v # vs) sanitized =
     sanitize_loop vs
       (if v = PyNone then sanitized @ [None]
        else if notna v then sanitized @ [Some (to_float v)]
        else sanitized @ [None])"

definition sanitize_values :: "scalar list \<Rightarrow> pyfloat option list" where
  "sanitize_values vs = sanitize_loop vs []"

text \<open>A cell of a frame as the scalar that \<^verbatim>\<open>tolist()\<close> yields for it.\<close>

definition cell_scalar :: "real option \<Rightarrow> scalar" where
  "cell_scalar c = (case c of None \<Rightarrow> PyFloat NaN | Some x \<Rightarrow> PyFloat (Finite x))"

datatype chart = NoChart
  | SeriesChart "string list" "pyfloat option list"
  | MultiSeriesChart "string list" "(string \<times> pyfloat option list) list"

definition build_bar_chart :: "string list \<Rightarrow> scalar list \<Rightarrow> chart" where
  "build_bar_chart labels vs = SeriesChart labels (sanitize_values vs)"

definition build_line_chart :: "argsort \<Rightarrow> frame \<Rightarrow> string \<Rightarrow> chart" where
  "build_line_chart argsort df value_column =
     (let sorted_df = sort_values argsort year_key True (df_rows df)
      in SeriesChart (map (\<lambda>r. str_int (row_year r)) sorted_df)
           (sanitize_values (map (\<lambda>r. cell_scalar (cell value_column r)) sorted_df)))"





section \<open>Summaries (summary_generator.py)\<close>

record rank_record =
  rank :: nat
  rank_location :: string
  rank_value :: "real option"
  rank_year :: int

record comparison_result =
  winner :: string
  loser :: string
  difference :: real

text \<open>The context dictionary: each field is a key that may be absent. An empty
  comparison dictionary and an absent one are both \<open>None\<close>; an empty statistics dictionary
  and an absent one are both \<open>empty_stats\<close>.\<close>

record summary_context =
  ctx_coordinate :: "(real option \<times> real option) option"
  ctx_nearby :: "near_record list option"
  ctx_ranking :: "rank_record list option"
  ctx_comparison :: "comparison_result option"
  ctx_stats :: stats_result

definition empty_context :: summary_context where
  "empty_context =
     \<lparr>ctx_coordinate = None, ctx_nearby = None, ctx_ranking = None, ctx_comparison = None,
      ctx_stats = empty_stats\<rparr>"

definition METRIC_MESSAGES :: "(string \<times> string) list" where
  "METRIC_MESSAGES =
     [(''price'', ''pricing trends''),
      (''demand'', ''buyer demand''),
      (''sales'', ''sales values''),
      (''supply'', ''new supply and inventory levels''),
      (''general'', ''overall performance metrics'')]"

definition PROPERTY_LABELS :: "(string \<times> string) list" where
  "PROPERTY_LABELS =
     [(''flat'', ''flats''), (''office'', ''offices''), (''shop'', ''shops''),
      (''carpet_area'', ''carpet area supplied'')]"

definition metric_phrase :: "ParsedQuery \<Rightarrow> string" where
  "metric_phrase parsed =
     (let base = (case map_of METRIC_MESSAGES (metric parsed) of
                    Some m \<Rightarrow> m | None \<Rightarrow> ''overall performance metrics'')
      in if property_types parsed \<noteq> []
         then base @ '' for '' @
              join '' & '' (map (\<lambda>prop. case map_of PROPERTY_LABELS prop of
                                          Some l \<Rightarrow> l | None \<Rightarrow> prop)
                              (property_types parsed))
         else base)"

definition nonzero :: "int option \<Rightarrow> bool" where
  "nonzero v = (case v of None \<Rightarrow> False | Some n \<Rightarrow> n \<noteq> 0)"

definition time_phrase :: "ParsedQuery \<Rightarrow> string" where
  "time_phrase parsed =
     (case (if nonzero (year parsed) then year parsed else None) of
        Some y \<Rightarrow> ''in '' @ str_int y
      | None \<Rightarrow>
          (case year_range parsed of
             Some (start_year, end_year) \<Rightarrow>
               ''from '' @ str_int start_year @ '' to '' @ str_int end_year
           | None \<Rightarrow>
               (case (if nonzero (last_n_years parsed) then last_n_years parsed else None) of
                  Some n \<Rightarrow> ''across the last '' @ str_int n @ '' years''
                | None \<Rightarrow> ''across the available years'')))"

text \<open>\<^verbatim>\<open>_format_value\<close> on a float; \<open>None\<close> is a value that is missing or not finite.\<close>

definition format_value :: "real option \<Rightarrow> string" where
  "format_value v =
     (case v of
        None \<Rightarrow> ''N/A''
      | Some x \<Rightarrow>
          (let absolute = \<bar>x\<bar>
           in if absolute \<ge> 1000000000 then format_fixed 2 (x / 1000000000) @ ''B''
              else if absolute \<ge> 1000000 then format_fixed 2 (x / 1000000) @ ''M''
              else if absolute \<ge> 1000 then format_fixed 1 (x / 1000) @ ''K''
              else if of_int \<lfloor>absolute\<rfloor> = absolute then str_int \<lfloor>x\<rfloor>
              else format_fixed 2 x))"

definition year_suffix :: "int \<Rightarrow> string" where
  "year_suffix y = (if y \<noteq> 0 then '' in '' @ str_int y else [])"

definition stats_sentence :: "stats_result \<Rightarrow> string" where
  "stats_sentence st =
     (if st = empty_stats then []
      else (let parts =
                  (case st_average st of
                     Some v \<Rightarrow> [''average '' @ format_value (Some v)] | None \<Rightarrow> [])
                  @ (case st_max st of
                       Some (v, y) \<Rightarrow> [''peak of '' @ format_value (Some v) @ year_suffix y]
                     | None \<Rightarrow> [])
                  @ (case st_min st of
                       Some (v, y) \<Rightarrow>
                         [''lowest value of '' @ format_value (Some v) @ year_suffix y]
                     | None \<Rightarrow> [])
                  @ (case st_growth_rate st of
                       Some (rate, direction) \<Rightarrow>
                         [direction @ '' of '' @ format_value (Some rate)
                          @ ''% across the selected years'']
                     | None \<Rightarrow> [])
            in if parts = [] then []
               else '' Key stats: '' @ join ''; '' parts @ ''.''))"

definition generate_summary :: "ParsedQuery \<Rightarrow> summary_context \<Rightarrow> string" where
  "generate_summary parsed ctx =
     (if coordinate parsed then
        (let location = (case locations parsed of
                           l # ls \<Rightarrow> l | [] \<Rightarrow> ''the requested location'')
         in case ctx_coordinate ctx of
              None \<Rightarrow> ''Latitude/longitude for '' @ location
                       @ '' could not be located in the dataset.''
            | Some (lat, lng) \<Rightarrow>
                ''Coordinates for '' @ location @ '': lat '' @ format_value lat
                @ '', lng '' @ format_value lng @ ''.'')
      else if near parsed then
        (let location = (case locations parsed of
                           l # ls \<Rightarrow> l | [] \<Rightarrow> ''the target locality'');
             nearby = (case ctx_nearby ctx of Some n \<Rightarrow> n | None \<Rightarrow> [])
         in if nearby = [] then ''No nearby localities were detected for '' @ location @ ''.''
            else ''Localities closest to '' @ location @ '' include ''
                 @ join '', '' (map nr_location nearby) @ ''.'')
      else if ranking parsed then
        (case (case ctx_ranking ctx of Some rs \<Rightarrow> rs | None \<Rightarrow> []) of
           [] \<Rightarrow> ''No ranking data was available for the requested metric.''
         | top_row # others \<Rightarrow>
             (let time_phrase' = (if rank_year top_row \<noteq> 0 then ''in '' @ str_int (rank_year top_row)
                                  else ''based on the latest data'')
              in rank_location top_row @ '' leads '' @ metric_phrase parsed @ '' '' @ time_phrase'
                 @ '' with '' @ format_value (rank_value top_row) @ ''.''))
      else if comparison parsed \<and> length (locations parsed) \<ge> 2 then
        (case (case ctx_comparison ctx of
                 Some c \<Rightarrow> if winner c \<noteq> [] \<and> loser c \<noteq> [] then Some c else None
               | None \<Rightarrow> None) of
           Some c \<Rightarrow>
             winner c @ '' currently outperforms '' @ loser c @ '' for ''
             @ metric_phrase parsed @ '' by '' @ format_value (Some (difference c))
             @ ''. Use the chart to inspect the year-wise divergence.''
         | None \<Rightarrow>
             ''Comparing '' @ metric_phrase parsed @ '' between '' @ locations parsed ! 0
             @ '' and '' @ locations parsed ! 1 @ '' '' @ time_phrase parsed @ ''.'')
      else if general_insight parsed \<and> locations parsed \<noteq> [] then
        ''Overview of '' @ metric_phrase parsed @ '' for '' @ locations parsed ! 0 @ '' ''
        @ time_phrase parsed @ ''.''
      else if all_locations parsed \<and> locations parsed = [] then
        ''Aggregated '' @ metric_phrase parsed @ '' across Pune '' @ time_phrase parsed @ ''.''
        @ stats_sentence (ctx_stats ctx)
      else if locations parsed = [] then
        ''No matching location was found in the dataset. Please refine the query.''
      else ''Showing '' @ metric_phrase parsed @ '' for '' @ locations parsed ! 0 @ '' ''
           @ time_phrase parsed @ ''.'' @ stats_sentence (ctx_stats ctx))"

section \<open>The handlers (views.py)\<close>

datatype table_row = RankRow rank_record | DataRow row
  | CoordRow string "real option" "real option" | NearRow near_record

record response =
  summary :: string
  chart_type :: string
  chart_data :: chart
  table_data :: "table_row list"

text \<open>A request that does not produce a response ends in an error reply (status 400 or
  404, with its detail text) or in an exception that leaves the view.\<close>

datatype failure = BadRequest string | NotFound string | Uncaught exception

definition column_missing :: "string \<Rightarrow> failure" where
  "column_missing value_column =
     BadRequest (''Column '' @ [CHR 0x27] @ value_column @ [CHR 0x27]
                 @ '' is missing in the data.'')"

text \<open>\<^verbatim>\<open>enumerate(..., start=1)\<close> over the rows of the ranking.\<close>

definition rank_records :: "string \<Rightarrow> row list \<Rightarrow> rank_record list" where
  "rank_records value_column rs =
     map (\<lambda>(idx, r). \<lparr>rank = idx, rank_location = final_location r,
                      rank_value = cell value_column r, rank_year = row_year r\<rparr>)
         (zip [1..<Suc (length rs)] rs)"

definition handle_ranking :: "argsort \<Rightarrow> frame \<Rightarrow> ParsedQuery \<Rightarrow> failure + response" where
  "handle_ranking argsort df parsed =
     (let value_column = resolve_value_column parsed;
          ranking_df = ranking_frame df (year parsed)
      in if value_column \<notin> set (df_columns ranking_df) then Inl (column_missing value_column)
         else (let present = filter (\<lambda>r. cell value_column r \<noteq> None) (df_rows ranking_df)
               in if present = [] then Inl (NotFound ''No data available for ranking.'')
                  else (let ordered = sort_values argsort (cell value_column)
                                        (ranking_order parsed = ''asc'') present;
                            limited = head (resolve_ranking_limit parsed) ordered;
                            labels = map final_location limited;
                            vs = map (\<lambda>r. cell_scalar (cell value_column r)) limited;
                            chart = build_bar_chart labels vs;
                            table_records = rank_records value_column limited;
                            ctx = empty_context\<lparr>ctx_ranking := Some table_records\<rparr>
                        in Inr \<lparr>summary = generate_summary parsed ctx,
                                chart_type = ''bar'',
                                chart_data = chart,
                                table_data = map RankRow table_records\<rparr>)))"

text \<open>The chronologically last row of a frame: \<^verbatim>\<open>df.sort_values("year").iloc[-1]\<close>.\<close>

definition latest_row :: "argsort \<Rightarrow> frame \<Rightarrow> exception + row" where
  "latest_row argsort df =
     (case rev (sort_values argsort year_key True (df_rows df)) of
        [] \<Rightarrow> Inl IndexError
      | r # rs \<Rightarrow> Inr r)"

definition handle_coordinate :: "argsort \<Rightarrow> frame \<Rightarrow> ParsedQuery \<Rightarrow> failure + response" where
  "handle_coordinate argsort df parsed =
     (case locations parsed of
        [] \<Rightarrow> Inl (BadRequest ''Please mention a location for coordinate queries.'')
      | location # ls \<Rightarrow>
          (let filtered = filter_dataset argsort df (Some location) None None None
           in if df_rows filtered = []
              then Inl (NotFound ''Requested location is missing in the data.'')
              else (case latest_row argsort filtered of
                      Inl e \<Rightarrow> Inl (Uncaught e)
                    | Inr lr \<Rightarrow>
                        (let ctx0 = empty_context\<lparr>ctx_coordinate := Some (loc_lat lr, loc_lng lr)\<rparr>;
                             table0 = [CoordRow location (loc_lat lr) (loc_lng lr)];
                             nearby = nearby_localities argsort df location;
                             ctx = (if near parsed then ctx0\<lparr>ctx_nearby := Some nearby\<rparr> else ctx0);
                             table = (if near parsed then map NearRow nearby else table0)
                         in Inr \<lparr>summary = generate_summary parsed ctx,
                                 chart_type = ''none'',
                                 chart_data = NoChart,
                                 table_data = table\<rparr>))))"



section \<open>Notions used in the statements\<close>

text \<open>The rows the ranking handler sorts: the rows of the ranking frame whose value
  column is present.\<close>

definition ranking_candidates :: "frame \<Rightarrow> ParsedQuery \<Rightarrow> row list" where
  "ranking_candidates df parsed =
     filter (\<lambda>r. cell (resolve_value_column parsed) r \<noteq> None)
       (df_rows (ranking_frame df (year parsed)))"








section \<open>Example data\<close>

definition example_locations :: "string list" where
  "example_locations = [''Aundh'', ''Baner'', ''Wakad'']"

definition example_row :: "string \<Rightarrow> int \<Rightarrow> real option \<Rightarrow> row" where
  "example_row name y v =
     \<lparr>final_location = name, row_year = y, loc_lat = Some 18.5, loc_lng = Some 73.8,
      cells = [(''total sold - igr'', v)]\<rparr>"

definition example_frame :: frame where
  "example_frame =
     \<lparr>df_columns = [''total sold - igr''],
      df_rows = [example_row ''Wakad'' 2020 (Some 5), example_row ''Baner'' 2020 (Some 5),
                 example_row ''Aundh'' 2020 (Some 1500), example_row ''Wakad'' 2021 (Some 7),
                 example_row ''Baner'' 2021 None]\<rparr>"


definition top2_query :: ParsedQuery where
  "top2_query = parse_query [] ''top 2 demand in 2020'' (Some example_locations)"

definition top0_query :: ParsedQuery where
  "top0_query = parse_query [] ''top 0 demand'' (Some example_locations)"







section \<open>Auxiliary lemmas\<close>

lemma sorted_nth0_Min:
  fixes xs :: "('a::linorder) list"
  assumes "sorted xs" and "xs \<noteq> []"
  shows "xs ! 0 = Min (set xs)"
proof -
  obtain x rest where xs: "xs = x # rest" using assms(2) by (cases xs) auto
  with assms(1) have "\<forall>y\<in>set xs. x \<le> y" by auto
  then have "Min (set xs) = x" using xs by (intro Min_eqI) auto
  then show ?thesis using xs by simp
qed

lemma sorted_last_Max:
  fixes xs :: "('a::linorder) list"
  assumes "sorted xs" and "xs \<noteq> []"
  shows "last xs = Max (set xs)"
proof -
  have "\<forall>y\<in>set xs. y \<le> last xs"
    using assms by (induction xs) (auto simp: sorted_simps)
  then have "Max (set xs) = last xs" using assms(2) by (intro Max_eqI) auto
  then show ?thesis by simp
qed

subsection \<open>Sorting by one column\<close>

lemma sort_rank_le_key_le:
  "sort_rank ascending a \<le> sort_rank ascending b \<Longrightarrow> key_le ascending a b"
  by (auto simp: sort_rank_def key_le_def split: option.splits if_splits)

lemma sorted_ranks_sorted_keys:
  assumes "sorted (map (\<lambda>i. sort_rank ascending (keys ! i)) p)"
  shows "sorted_wrt (key_le ascending) (map ((!) keys) p)"
proof -
  have "sorted_wrt (\<lambda>i j. sort_rank ascending (keys ! i) \<le> sort_rank ascending (keys ! j)) p"
    using assms by (simp add: sorted_wrt_map sorted_map)
  then have "sorted_wrt (\<lambda>i j. key_le ascending (keys ! i) (keys ! j)) p"
    by (rule sorted_wrt_mono_rel[rotated]) (simp add: sort_rank_le_key_le)
  then show ?thesis by (simp add: sorted_wrt_map)
qed

lemma stable_argsort_ok: "argsort_ok stable_argsort"
proof -
  have "mset (stable_argsort ascending keys) = mset [0..<length keys]" for ascending keys
    unfolding stable_argsort_def by (rule mset_sort)
  moreover have "sorted_wrt (key_le ascending) (map ((!) keys) (stable_argsort ascending keys))"
    for ascending keys
    unfolding stable_argsort_def by (rule sorted_ranks_sorted_keys) (rule sorted_sort_key)
  ultimately show ?thesis unfolding argsort_ok_def by blast
qed


lemma argsort_indices:
  assumes "argsort_ok argsort"
  shows "mset (argsort ascending keys) = mset [0..<length keys]"
    and "set (argsort ascending keys) = {0..<length keys}"
    and "length (argsort ascending keys) = length keys"
proof -
  show m: "mset (argsort ascending keys) = mset [0..<length keys]"
    using assms by (simp add: argsort_ok_def)
  show "set (argsort ascending keys) = {0..<length keys}"
    using mset_eq_setD[OF m] by simp
  show "length (argsort ascending keys) = length keys"
    using mset_eq_length[OF m] by simp
qed

lemma sort_values_mset:
  assumes "argsort_ok argsort"
  shows "mset (sort_values argsort by ascending rs) = mset rs"
proof -
  have "mset (map ((!) rs) (argsort ascending (map by rs)))
        = image_mset ((!) rs) (mset (argsort ascending (map by rs)))" by simp
  also have "\<dots> = image_mset ((!) rs) (mset [0..<length rs])"
    using argsort_indices(1)[OF assms, of ascending "map by rs"] by simp
  also have "\<dots> = mset (map ((!) rs) [0..<length rs])" by simp
  also have "\<dots> = mset rs" by (simp add: map_nth)
  finally show ?thesis by (simp add: sort_values_def)
qed


lemma sort_values_length:
  "argsort_ok argsort \<Longrightarrow> length (sort_values argsort by ascending rs) = length rs"
  by (rule mset_eq_length[OF sort_values_mset])


subsection \<open>Fields the ranking handler does not read\<close>

lemma window_fields:
  "metric (parsed\<lparr>year_range := yr_range, last_n_years := last_n\<rparr>) = metric parsed"
  "property_types (parsed\<lparr>year_range := yr_range, last_n_years := last_n\<rparr>) = property_types parsed"
  "raw_query (parsed\<lparr>year_range := yr_range, last_n_years := last_n\<rparr>) = raw_query parsed"
  "ranking_limit (parsed\<lparr>year_range := yr_range, last_n_years := last_n\<rparr>) = ranking_limit parsed"
  "ranking_order (parsed\<lparr>year_range := yr_range, last_n_years := last_n\<rparr>) = ranking_order parsed"
  "year (parsed\<lparr>year_range := yr_range, last_n_years := last_n\<rparr>) = year parsed"
  "coordinate (parsed\<lparr>year_range := yr_range, last_n_years := last_n\<rparr>) = coordinate parsed"
  "near (parsed\<lparr>year_range := yr_range, last_n_years := last_n\<rparr>) = near parsed"
  "ranking (parsed\<lparr>year_range := yr_range, last_n_years := last_n\<rparr>) = ranking parsed"
  "locations (parsed\<lparr>year_range := yr_range, last_n_years := last_n\<rparr>) = locations parsed"
  by simp_all

lemma resolve_value_column_window:
  "resolve_value_column (parsed\<lparr>year_range := yr_range, last_n_years := last_n\<rparr>)
   = resolve_value_column parsed"
  unfolding resolve_value_column_def window_fields by (rule refl)

lemma resolve_ranking_limit_window:
  "resolve_ranking_limit (parsed\<lparr>year_range := yr_range, last_n_years := last_n\<rparr>)
   = resolve_ranking_limit parsed"
  unfolding resolve_ranking_limit_def window_fields by (rule refl)

lemma metric_phrase_window:
  "metric_phrase (parsed\<lparr>year_range := yr_range, last_n_years := last_n\<rparr>)
   = metric_phrase parsed"
  unfolding metric_phrase_def window_fields by (rule refl)

lemma generate_summary_window:
  assumes "coordinate parsed \<or> near parsed \<or> ranking parsed"
  shows "generate_summary (parsed\<lparr>year_range := yr_range, last_n_years := last_n\<rparr>) ctx
         = generate_summary parsed ctx"
proof -
  consider "coordinate parsed" | "\<not> coordinate parsed" "near parsed"
    | "\<not> coordinate parsed" "\<not> near parsed" "ranking parsed"
    using assms by blast
  then show ?thesis
  proof cases
    case 1
    then show ?thesis
      unfolding generate_summary_def window_fields metric_phrase_window by (simp only: if_True)
  next
    case 2
    then show ?thesis
      unfolding generate_summary_def window_fields metric_phrase_window
      by (simp only: if_True if_False)
  next
    case 3
    then show ?thesis
      unfolding generate_summary_def window_fields metric_phrase_window
      by (simp only: if_True if_False)
  qed
qed

subsection \<open>The sanitizing loop\<close>


subsection \<open>The response of the ranking handler\<close>

lemma map_zip_second:
  "length xs = length ys \<Longrightarrow> map (\<lambda>(x, y). f y) (zip xs ys) = map f ys"
  by (induction xs ys rule: list_induct2) auto

lemma map_zip_first:
  "length xs = length ys \<Longrightarrow> map (\<lambda>(x, y). f x) (zip xs ys) = map f xs"
  by (induction xs ys rule: list_induct2) auto

lemma rank_records_maps:
  "map rank_value (rank_records col rs) = map (cell col) rs"
  "map rank_location (rank_records col rs) = map final_location rs"
  "map rank_year (rank_records col rs) = map row_year rs"
  "map rank (rank_records col rs) = [1..<Suc (length rs)]"
  "length (rank_records col rs) = length rs"
proof -
  define idxs where "idxs = [1..<Suc (length rs)]"
  have l: "length idxs = length rs"
    unfolding idxs_def by (simp only: length_upt diff_Suc_1)
  have r: "rank_records col rs =
      map (\<lambda>(idx, r). \<lparr>rank = idx, rank_location = final_location r,
                        rank_value = cell col r, rank_year = row_year r\<rparr>) (zip idxs rs)"
    unfolding rank_records_def idxs_def by (rule refl)
  have "map rank_value (rank_records col rs) = map (\<lambda>(idx, r). cell col r) (zip idxs rs)"
    unfolding r by (simp add: case_prod_unfold)
  then show "map rank_value (rank_records col rs) = map (cell col) rs"
    using map_zip_second[OF l] by simp
  have "map rank_location (rank_records col rs)
        = map (\<lambda>(idx, r). final_location r) (zip idxs rs)"
    unfolding r by (simp add: case_prod_unfold)
  then show "map rank_location (rank_records col rs) = map final_location rs"
    using map_zip_second[OF l] by simp
  have "map rank_year (rank_records col rs) = map (\<lambda>(idx, r). row_year r) (zip idxs rs)"
    unfolding r by (simp add: case_prod_unfold)
  then show "map rank_year (rank_records col rs) = map row_year rs"
    using map_zip_second[OF l] by simp
  have "map rank (rank_records col rs) = map (\<lambda>(idx, r). id idx) (zip idxs rs)"
    unfolding r by (simp add: case_prod_unfold)
  then have "map rank (rank_records col rs) = idxs"
    using map_zip_first[OF l, of id] by simp
  then show "map rank (rank_records col rs) = [1..<Suc (length rs)]"
    unfolding idxs_def .
  show "length (rank_records col rs) = length rs"
    unfolding r using l by simp
qed

lemma handle_ranking_response:
  assumes "handle_ranking argsort df parsed = Inr resp"
  shows "resolve_value_column parsed \<in> set (df_columns (ranking_frame df (year parsed)))"
    and "ranking_candidates df parsed \<noteq> []"
    and "table_data resp =
           map RankRow (rank_records (resolve_value_column parsed)
             (head (resolve_ranking_limit parsed)
                (sort_values argsort (cell (resolve_value_column parsed))
                   (ranking_order parsed = ''asc'') (ranking_candidates df parsed))))"
proof -
  define col where "col = resolve_value_column parsed"
  define rf where "rf = ranking_frame df (year parsed)"
  define present where "present = filter (\<lambda>r. cell col r \<noteq> None) (df_rows rf)"
  have rc: "ranking_candidates df parsed = present"
    by (simp add: ranking_candidates_def present_def col_def rf_def)
  have a: "handle_ranking argsort df parsed =
      (if col \<notin> set (df_columns rf) then Inl (column_missing col)
       else if present = [] then Inl (NotFound ''No data available for ranking.'')
       else Inr \<lparr>summary = generate_summary parsed
                    (empty_context\<lparr>ctx_ranking := Some (rank_records col
                       (head (resolve_ranking_limit parsed)
                          (sort_values argsort (cell col) (ranking_order parsed = ''asc'') present)))\<rparr>),
                  chart_type = ''bar'',
                  chart_data = build_bar_chart
                     (map final_location (head (resolve_ranking_limit parsed)
                          (sort_values argsort (cell col) (ranking_order parsed = ''asc'') present)))
                     (map (\<lambda>r. cell_scalar (cell col r)) (head (resolve_ranking_limit parsed)
                          (sort_values argsort (cell col) (ranking_order parsed = ''asc'') present))),
                  table_data = map RankRow (rank_records col
                       (head (resolve_ranking_limit parsed)
                          (sort_values argsort (cell col) (ranking_order parsed = ''asc'') present)))\<rparr>)"
    unfolding handle_ranking_def Let_def col_def[symmetric] rf_def[symmetric]
      present_def[symmetric] by (rule refl)
  from assms a show "resolve_value_column parsed \<in> set (df_columns (ranking_frame df (year parsed)))"
    unfolding col_def[symmetric] rf_def[symmetric] by (metis Inl_Inr_False)
  from assms a show "ranking_candidates df parsed \<noteq> []"
    unfolding rc by (metis Inl_Inr_False)
  from assms a have "col \<in> set (df_columns rf)" "present \<noteq> []" by (metis Inl_Inr_False)+
  with assms a show "table_data resp =
           map RankRow (rank_records (resolve_value_column parsed)
             (head (resolve_ranking_limit parsed)
                (sort_values argsort (cell (resolve_value_column parsed))
                   (ranking_order parsed = ''asc'') (ranking_candidates df parsed))))"
    unfolding rc col_def[symmetric] by auto
qed


lemma head_length:
  "0 \<le> n \<Longrightarrow> length (head n xs) = min (nat n) (length xs)"
  by (simp add: head_def)




subsection \<open>Years as labels\<close>









subsection \<open>The multi-series chart and the chronologically last row\<close>







subsection \<open>The comparison handler\<close>







subsection \<open>Statistics\<close>








subsection \<open>Latest records and nearby locations\<close>























section \<open>The query parser: ranking, extrema, years\<close>

text \<open>
  C1. The descriptor built by \<open>parse_query\<close> never has both the ranking flag and the
  extrema flag set. With the ranking signal being the first component of
  \<open>detect_ranking\<close> on the trimmed, lowered query, and the resolved locations being what
  \<open>match_locations\<close> finds, the ranking flag is the signal together with no resolved
  location, and the extrema flag is the signal together with at least one resolved
  location.
\<close>

theorem parse_query_ranking_xor_extrema:
  "(let p = parse_query default_locations query locs;
        signal = fst (detect_ranking (lower (strip query)))
    in \<not> (ranking p \<and> extrema p) \<and>
       locations p = match_locations (strip query)
                       (case locs of Some l \<Rightarrow> l | None \<Rightarrow> default_locations) \<and>
       ranking p = (signal \<and> locations p = []) \<and>
       extrema p = (signal \<and> locations p \<noteq> []))"
  by (simp add: parse_query_def Let_def split: prod.splits)

text \<open>
  C4. The year extraction never returns both a single year and a range. When the
  two-year pattern with a connector matches, the result is the range of its two years in
  ascending order and no single year. Otherwise the bare years of the text decide: one
  distinct year gives that single year and no range, two or more distinct years give the
  range from the smallest to the largest and no single year, and no year gives neither.
\<close>

theorem extract_years_at_most_one:
  "(fst (extract_years q) = None \<or> snd (extract_years q) = None) \<and>
   (\<forall>g1 g2. YEAR_RANGE_REGEX_search q = Some (g1, g2) \<longrightarrow>
      extract_years q =
        (None, Some (min (digits_value g1) (digits_value g2),
                     max (digits_value g1) (digits_value g2)))) \<and>
   (YEAR_RANGE_REGEX_search q = None \<longrightarrow>
      (let ys = set (map digits_value (YEAR_REGEX_findall q))
       in (\<forall>y. ys = {y} \<longrightarrow> extract_years q = (Some y, None)) \<and>
          (card ys \<ge> 2 \<longrightarrow> extract_years q = (None, Some (Min ys, Max ys))) \<and>
          (ys = {} \<longrightarrow> extract_years q = (None, None))))"
proof (intro conjI allI impI)
  show "fst (extract_years q) = None \<or> snd (extract_years q) = None"
    by (simp add: extract_years_def Let_def split: option.splits prod.splits)
next
  fix g1 g2
  assume "YEAR_RANGE_REGEX_search q = Some (g1, g2)"
  then show "extract_years q =
        (None, Some (min (digits_value g1) (digits_value g2),
                     max (digits_value g1) (digits_value g2)))"
    by (simp add: extract_years_def Let_def min_def max_def)
next
  assume none: "YEAR_RANGE_REGEX_search q = None"
  define years where "years = map digits_value (YEAR_REGEX_findall q)"
  define u where "u = sort (remdups years)"
  have su: "sorted u" and setu: "set u = set years" and lenu: "length u = card (set years)"
    by (simp_all add: u_def length_remdups_card_conv)
  have ey: "extract_years q =
      (if length u = 1 then (Some (u ! 0), None)
       else if length u \<ge> 2 then (None, Some (u ! 0, last u)) else (None, None))"
    using none by (simp add: extract_years_def Let_def years_def u_def)
  have one: "extract_years q = (Some y, None)" if "set years = {y}" for y
  proof -
    have "length u = 1" using that lenu by simp
    moreover have "u \<noteq> []" using that setu by auto
    then have "u ! 0 = Min (set u)" using su by (rule sorted_nth0_Min[rotated])
    then have "u ! 0 = y" using that setu by simp
    ultimately show ?thesis using ey by simp
  qed
  have many: "extract_years q = (None, Some (Min (set years), Max (set years)))"
    if "card (set years) \<ge> 2"
  proof -
    have l: "length u \<ge> 2" using that lenu by simp
    then have ne: "u \<noteq> []" by auto
    have "u ! 0 = Min (set years)" "last u = Max (set years)"
      using sorted_nth0_Min[OF su ne] sorted_last_Max[OF su ne] setu by simp_all
    then show ?thesis using ey l by simp
  qed
  have zero: "extract_years q = (None, None)" if "set years = {}"
  proof -
    have "length u = 0" using that lenu by simp
    then show ?thesis using ey by simp
  qed
  show "let ys = set (map digits_value (YEAR_REGEX_findall q))
       in (\<forall>y. ys = {y} \<longrightarrow> extract_years q = (Some y, None)) \<and>
          (card ys \<ge> 2 \<longrightarrow> extract_years q = (None, Some (Min ys, Max ys))) \<and>
          (ys = {} \<longrightarrow> extract_years q = (None, None))"
    unfolding Let_def years_def[symmetric] using one many zero by blast
qed

theorem extract_years_at_most_one_witness:
  "YEAR_RANGE_REGEX_search ''from 2021 to 2019'' = Some (''2021'', ''2019'') \<and>
   extract_years ''from 2021 to 2019'' = (None, Some (2019, 2021)) \<and>
   YEAR_RANGE_REGEX_search ''demand in 2023'' = None \<and>
   set (map digits_value (YEAR_REGEX_findall ''demand in 2023'')) = {2023} \<and>
   extract_years ''demand in 2023'' = (Some 2023, None) \<and>
   YEAR_RANGE_REGEX_search ''2021, 2025, 2019'' = None \<and>
   card (set (map digits_value (YEAR_REGEX_findall ''2021, 2025, 2019''))) \<ge> 2 \<and>
   extract_years ''2021, 2025, 2019'' = (None, Some (2019, 2025))"
proof -
  have a: "YEAR_RANGE_REGEX_search ''from 2021 to 2019'' = Some (''2021'', ''2019'')"
    by code_simp
  have b: "YEAR_RANGE_REGEX_search ''demand in 2023'' = None" by code_simp
  have b': "set (map digits_value (YEAR_REGEX_findall ''demand in 2023'')) = {2023}"
    by code_simp
  have c: "YEAR_RANGE_REGEX_search ''2021, 2025, 2019'' = None" by code_simp
  have c': "set (map digits_value (YEAR_REGEX_findall ''2021, 2025, 2019'')) = {2021, 2025, 2019}"
    by code_simp
  have c'': "card (set (map digits_value (YEAR_REGEX_findall ''2021, 2025, 2019''))) \<ge> 2"
    unfolding c' by simp
  have v1: "digits_value ''2021'' = 2021" "digits_value ''2019'' = 2019" by code_simp+
  note t1 = extract_years_at_most_one[of "''from 2021 to 2019''"]
  note t2 = extract_years_at_most_one[of "''demand in 2023''"]
  note t3 = extract_years_at_most_one[of "''2021, 2025, 2019''"]
  have r1: "extract_years ''from 2021 to 2019'' = (None, Some (2019, 2021))"
    using t1 a v1 by simp
  have r2: "extract_years ''demand in 2023'' = (Some 2023, None)"
    using t2 b b' by (simp add: Let_def)
  have r3: "extract_years ''2021, 2025, 2019'' = (None, Some (2019, 2025))"
    using t3 c c'' unfolding Let_def c' by simp
  show ?thesis using a b b' c c'' r1 r2 r3 by blast
qed

text \<open>
  C5. When the pattern \<^verbatim>\<open>top\s+(\d+)\<close> matches in the lowered query and the digits it
  captured convert to the integer \<open>n\<close>, the ranking detection returns the signal true, the
  order descending and the limit \<open>n\<close>, whatever ascending keywords the query holds.
\<close>

theorem detect_ranking_top_n:
  assumes "TOP_N_REGEX_search lowered_query = Some ds" and "py_int ds = Some n"
  shows "detect_ranking lowered_query = (True, ''desc'', Some n)"
  using assms by (simp add: detect_ranking_def Let_def)

theorem detect_ranking_top_n_witness:
  "TOP_N_REGEX_search ''lowest top 3 areas'' = Some ''3'' \<and> py_int ''3'' = Some 3 \<and>
   detect_boolean ''lowest top 3 areas'' RANKING_ASC_KEYWORDS True \<and>
   detect_ranking ''lowest top 3 areas'' = (True, ''desc'', Some 3)"
proof -
  have a: "TOP_N_REGEX_search ''lowest top 3 areas'' = Some ''3''" by code_simp
  have b: "py_int ''3'' = Some 3" by code_simp
  have c: "detect_boolean ''lowest top 3 areas'' RANKING_ASC_KEYWORDS True" by code_simp
  show ?thesis using a b c detect_ranking_top_n[OF a b] by simp
qed

section \<open>Chart values\<close>





section \<open>The ranking handler\<close>

text \<open>
  C10. For a descriptor with the ranking flag set, the response of the ranking handler
  does not depend on the descriptor's year range and last-N-years fields: replacing both
  by any other values leaves the response unchanged. Of the time fields only the single
  year reaches \<open>ranking_frame\<close>.
\<close>

theorem handle_ranking_ignores_window:
  assumes "ranking parsed"
  shows "handle_ranking argsort df (parsed\<lparr>year_range := yr_range, last_n_years := last_n\<rparr>)
         = handle_ranking argsort df parsed"
proof -
  have g: "generate_summary (parsed\<lparr>year_range := yr_range, last_n_years := last_n\<rparr>) ctx
           = generate_summary parsed ctx" for ctx
    using assms by (simp add: generate_summary_window)
  show ?thesis
    unfolding handle_ranking_def resolve_value_column_window resolve_ranking_limit_window
      window_fields g
    by (rule refl)
qed

theorem handle_ranking_ignores_window_witness:
  "ranking top2_query \<and>
   handle_ranking stable_argsort example_frame
     (top2_query\<lparr>year_range := Some (2019, 2021), last_n_years := Some 2\<rparr>)
   = handle_ranking stable_argsort example_frame top2_query"
proof -
  have r: "ranking top2_query" by code_simp
  show ?thesis using r handle_ranking_ignores_window[OF r] by simp
qed


text \<open>
  C6 (as amended). The ranking handler cuts the sorted rows with \<open>head\<close> at the limit
  \<open>resolve_ranking_limit\<close>: the explicit top-N value when it is present and not zero;
  otherwise (no explicit value, or the value zero) 1 when the lowered raw query contains
  one of "which", "highest", "lowest", "most", "least", and 5 when it does not. For a
  limit that is not negative the number of emitted rows is the smaller of the limit and
  the number of rows with a value.
\<close>

theorem ranking_limit_truncation:
  assumes "argsort_ok argsort" and "handle_ranking argsort df parsed = Inr resp"
  shows "(\<forall>n. ranking_limit parsed = Some n \<and> n \<noteq> 0 \<longrightarrow> resolve_ranking_limit parsed = n) \<and>
         (ranking_limit parsed = None \<or> ranking_limit parsed = Some 0 \<longrightarrow>
            resolve_ranking_limit parsed =
              (if list_ex (\<lambda>keyword. contains keyword (lower (raw_query parsed)))
                    [''which'', ''highest'', ''lowest'', ''most'', ''least'']
               then 1 else 5)) \<and>
         length (table_data resp)
           = length (head (resolve_ranking_limit parsed) (ranking_candidates df parsed)) \<and>
         (0 \<le> resolve_ranking_limit parsed \<longrightarrow>
            length (table_data resp)
              = min (nat (resolve_ranking_limit parsed)) (length (ranking_candidates df parsed)))"
proof (intro conjI)
  show "\<forall>n. ranking_limit parsed = Some n \<and> n \<noteq> 0 \<longrightarrow> resolve_ranking_limit parsed = n"
    by (simp add: resolve_ranking_limit_def Let_def)
  show "ranking_limit parsed = None \<or> ranking_limit parsed = Some 0 \<longrightarrow>
            resolve_ranking_limit parsed =
              (if list_ex (\<lambda>keyword. contains keyword (lower (raw_query parsed)))
                    [''which'', ''highest'', ''lowest'', ''most'', ''least'']
               then 1 else 5)"
    by (auto simp: resolve_ranking_limit_def Let_def RANKING_KEYWORDS_LIMIT_def
        DEFAULT_RANKING_LIMIT_def)
  let ?ordered = "sort_values argsort (cell (resolve_value_column parsed))
                    (ranking_order parsed = ''asc'') (ranking_candidates df parsed)"
  have len: "length ?ordered = length (ranking_candidates df parsed)"
    using assms(1) by (rule sort_values_length)
  have t: "length (table_data resp) = length (head (resolve_ranking_limit parsed) ?ordered)"
    using handle_ranking_response(3)[OF assms(2)] by (simp add: rank_records_maps(5))
  show l: "length (table_data resp)
           = length (head (resolve_ranking_limit parsed) (ranking_candidates df parsed))"
    using t len by (simp add: head_def)
  show "0 \<le> resolve_ranking_limit parsed \<longrightarrow>
            length (table_data resp)
              = min (nat (resolve_ranking_limit parsed)) (length (ranking_candidates df parsed))"
    using l by (simp add: head_length)
qed

theorem ranking_limit_truncation_witness:
  "argsort_ok stable_argsort \<and>
   ranking_limit top2_query = Some 2 \<and>
   length (ranking_candidates example_frame top2_query) = 3 \<and>
   handle_ranking stable_argsort example_frame top2_query =
     Inr \<lparr>summary = ''Aundh leads buyer demand in 2020 with 1.5K.'',
          chart_type = ''bar'',
          chart_data = SeriesChart [''Aundh'', ''Wakad''] [Some (Finite 1500), Some (Finite 5)],
          table_data =
            [RankRow \<lparr>rank = 1, rank_location = ''Aundh'', rank_value = Some 1500,
                      rank_year = 2020\<rparr>,
             RankRow \<lparr>rank = 2, rank_location = ''Wakad'', rank_value = Some 5,
                      rank_year = 2020\<rparr>]\<rparr> \<and>
   resolve_ranking_limit top2_query = 2"
proof -
  have q: "ranking_limit top2_query = Some 2" by code_simp
  have c: "length (ranking_candidates example_frame top2_query) = 3" by code_simp
  have h: "handle_ranking stable_argsort example_frame top2_query =
     Inr \<lparr>summary = ''Aundh leads buyer demand in 2020 with 1.5K.'',
          chart_type = ''bar'',
          chart_data = SeriesChart [''Aundh'', ''Wakad''] [Some (Finite 1500), Some (Finite 5)],
          table_data =
            [RankRow \<lparr>rank = 1, rank_location = ''Aundh'', rank_value = Some 1500,
                      rank_year = 2020\<rparr>,
             RankRow \<lparr>rank = 2, rank_location = ''Wakad'', rank_value = Some 5,
                      rank_year = 2020\<rparr>]\<rparr>"
    by code_simp
  have "resolve_ranking_limit top2_query = 2"
    using ranking_limit_truncation[OF stable_argsort_ok h] q by simp
  then show ?thesis using stable_argsort_ok q c h by simp
qed

text \<open>The claim as stated fails for the query "top 0 demand": its explicit limit is 0,
  and the handler emits the rows of the default limit 5 (here both rows that exist)
  instead of none.\<close>

theorem ranking_limit_zero_counterexample:
  "ranking_limit top0_query = Some 0 \<and>
   resolve_ranking_limit top0_query = 5 \<and>
   handle_ranking stable_argsort example_frame top0_query =
     Inr \<lparr>summary = ''Aundh leads buyer demand in 2020 with 1.5K.'',
          chart_type = ''bar'',
          chart_data = SeriesChart [''Aundh'', ''Wakad''] [Some (Finite 1500), Some (Finite 7)],
          table_data =
            [RankRow \<lparr>rank = 1, rank_location = ''Aundh'', rank_value = Some 1500,
                      rank_year = 2020\<rparr>,
             RankRow \<lparr>rank = 2, rank_location = ''Wakad'', rank_value = Some 7,
                      rank_year = 2021\<rparr>]\<rparr>"
  by code_simp




section \<open>The comparison handler\<close>



section \<open>The growth rate\<close>




section \<open>Nearby locations\<close>




end
